theory Spec2Isabelle
  imports Main
begin

section \<open>Attribute values, value sets and visitation results\<close>

text \<open>
  An attribute name is an interned identifier; two names are equal iff their strings are
  equal, so the model identifies a name with its string.
\<close>

type_synonym attribute_name = string

text \<open>
  An attribute value container holds one type-erased value together with its dynamic type,
  or is empty. The dynamic type is a tag of an open tag type \<open>'t\<close>, the payload a value of
  \<open>'v\<close>.
\<close>

datatype ('t, 'v) attribute_value = empty_value | typed_value 't 'v

type_synonym ('t, 'v) attribute_values_view = "attribute_name \<rightharpoonup> ('t, 'v) attribute_value"

text \<open>
  \<^verbatim>\<open>visitation_result\<close> (value_visitation.hpp, lines 43-81): a class around one
  \<^verbatim>\<open>error_code\<close>; \<^verbatim>\<open>operator!\<close> is true iff the code is not \<^verbatim>\<open>ok\<close>.
\<close>

datatype error_code = ok | value_not_found | value_has_invalid_type

datatype visitation_result = visitation_result (code: error_code)

definition operator_not :: "visitation_result \<Rightarrow> bool" where
  "operator_not r = (code r \<noteq> ok)"

section \<open>Calls that may raise\<close>

text \<open>
  A call either returns a value or raises. A raised C++ object is either of a class derived
  from the library's \<^verbatim>\<open>exception\<close> base, which has a slot for the attribute name
  information, or of an unrelated type (a \<^verbatim>\<open>catch (exception&)\<close> clause does not
  match it).
\<close>

datatype ('e, 'a) outcome = Returned 'a | Raised 'e

datatype 'x thrown =
    derived_from_exception 'x "attribute_name option"
  | unrelated_to_exception 'x

text \<open>
  A visitor is a user-supplied function object. It receives the stored value as the matched
  candidate type and acts on a state of its own (\<open>'s\<close>: the stream it writes to, a variable
  it assigns); it returns or raises, and what it did to the state before raising stays
  done.
\<close>

type_synonym ('t, 'v, 's, 'x) visitor = "'t \<Rightarrow> 'v \<Rightarrow> 's \<Rightarrow> ('x thrown, unit) outcome \<times> 's"

section \<open>The container's visit\<close>

text \<open>
  Modelled from the spec: \<^verbatim>\<open>attribute_value::holds\<close> and
  \<^verbatim>\<open>attribute_value::visit\<close> (attribute_value.hpp is not among the sources).
  \<^verbatim>\<open>holds<T>()\<close> is true iff the dynamic type equals T.
\<close>

fun holds :: "('t, 'v) attribute_value \<Rightarrow> 't \<Rightarrow> bool" where
  "holds empty_value T = False"
| "holds (typed_value U v) T = (U = T)"

text \<open>
  Modelled from the spec: \<^verbatim>\<open>visit<CandidateTypes>(visitor)\<close>. For each type of the
  candidate list, in declared order, test \<^verbatim>\<open>holds\<close>; on the first match invoke the
  visitor on the value as that type and return true; if no type matches return false
  without invoking the visitor. An empty container holds no type, so the case of an empty
  container under a successful test is never reached.
\<close>

fun attribute_value_visit ::
  "'t list \<Rightarrow> ('t, 'v, 's, 'x) visitor \<Rightarrow> ('t, 'v) attribute_value \<Rightarrow> 's
    \<Rightarrow> ('x thrown, bool) outcome \<times> 's" where
  "attribute_value_visit [] visitor c s = (Returned False, s)"
| "attribute_value_visit (T # Ts) visitor c s =
     (if holds c T then
        (case c of
           typed_value U v \<Rightarrow>
             (case visitor T v s of
                (Returned u, s') \<Rightarrow> (Returned True, s')
              | (Raised e, s') \<Rightarrow> (Raised e, s'))
         | empty_value \<Rightarrow> (Returned False, s))
      else attribute_value_visit Ts visitor c s)"

section \<open>The visitor invoker (value_visitation.hpp)\<close>

text \<open>
  Modelled from the spec: \<^verbatim>\<open>aux::attach_attribute_name_info(e, name)\<close>
  (exceptions.hpp is not among the sources) attaches the attribute name to an object of
  the \<^verbatim>\<open>exception\<close> base class.
\<close>

definition attach_attribute_name_info :: "'x \<Rightarrow> attribute_name option \<Rightarrow> attribute_name \<Rightarrow> 'x thrown" where
  "attach_attribute_name_info x info name = derived_from_exception x (Some name)"

text \<open>
  Modelled from the spec: what an inspection of a raised error finds as the name of the
  originating attribute (exceptions.hpp is not among the sources). Only an object derived
  from \<^verbatim>\<open>exception\<close> can carry one.
\<close>

fun attribute_name_info :: "'x thrown \<Rightarrow> attribute_name option" where
  "attribute_name_info (derived_from_exception x info) = info"
| "attribute_name_info (unrelated_to_exception x) = None"

text \<open>
  The handler \<^verbatim>\<open>catch (exception& e) { attach_attribute_name_info(e, m_Name); throw; }\<close>
  (lines 139-144): an object derived from \<^verbatim>\<open>exception\<close> gets the name and is
  rethrown; any other object passes the clause untouched.
\<close>

fun catch_exception :: "attribute_name \<Rightarrow> 'x thrown \<Rightarrow> 'x thrown" where
  "catch_exception name (derived_from_exception x info) = attach_attribute_name_info x info name"
| "catch_exception name (unrelated_to_exception x) = unrelated_to_exception x"

text \<open>
  \<^verbatim>\<open>value_visitor_invoker<T>\<close>: the bound name \<^verbatim>\<open>m_Name\<close> and the candidate
  types \<^verbatim>\<open>value_types\<close> (the template argument, one type or a sequence of types).
\<close>

record 't value_visitor_invoker =
  m_Name :: attribute_name
  value_types :: "'t list"

text \<open>The constructor \<^verbatim>\<open>value_visitor_invoker<T>(name)\<close> (line 113).\<close>

definition make_invoker :: "'t list \<Rightarrow> attribute_name \<Rightarrow> 't value_visitor_invoker" where
  "make_invoker T name = \<lparr>m_Name = name, value_types = T\<rparr>"

text \<open>
  The body of the \<^verbatim>\<open>try\<close> block of \<^verbatim>\<open>operator()\<close> (lines 129-137):
  \<^verbatim>\<open>attrs.find(m_Name)\<close>, then the container's visit, then the result code.
\<close>

definition invoker_try_block ::
  "'t value_visitor_invoker \<Rightarrow> ('t, 'v) attribute_values_view \<Rightarrow> ('t, 'v, 's, 'x) visitor \<Rightarrow> 's
    \<Rightarrow> ('x thrown, visitation_result) outcome \<times> 's" where
  "invoker_try_block this attrs visitor s =
     (case attrs (m_Name this) of
        Some c \<Rightarrow>
          (case attribute_value_visit (value_types this) visitor c s of
             (Returned b, s') \<Rightarrow>
               (if b then (Returned (visitation_result ok), s')
                else (Returned (visitation_result value_has_invalid_type), s'))
           | (Raised e, s') \<Rightarrow> (Raised e, s'))
      | None \<Rightarrow> (Returned (visitation_result value_not_found), s))"

text \<open>
  \<^verbatim>\<open>operator() (attribute_values_view const& attrs, VisitorT visitor)\<close>
  (lines 124-145): the try block under the handler.
\<close>

definition invoke ::
  "'t value_visitor_invoker \<Rightarrow> ('t, 'v) attribute_values_view \<Rightarrow> ('t, 'v, 's, 'x) visitor \<Rightarrow> 's
    \<Rightarrow> ('x thrown, visitation_result) outcome \<times> 's" where
  "invoke this attrs visitor s =
     (case invoker_try_block this attrs visitor s of
        (Returned r, s') \<Rightarrow> (Returned r, s')
      | (Raised e, s') \<Rightarrow> (Raised (catch_exception (m_Name this) e), s'))"

text \<open>
  A log record, as far as the invoker sees it: \<^verbatim>\<open>rec.attribute_values()\<close> is its
  attribute value set.
\<close>

record ('t, 'v) log_record =
  attribute_values :: "('t, 'v) attribute_values_view"

text \<open>\<^verbatim>\<open>operator() (record const& rec, VisitorT visitor)\<close> (lines 156-160).\<close>

definition invoke_record ::
  "'t value_visitor_invoker \<Rightarrow> ('t, 'v) log_record \<Rightarrow> ('t, 'v, 's, 'x) visitor \<Rightarrow> 's
    \<Rightarrow> ('x thrown, visitation_result) outcome \<times> 's" where
  "invoke_record this rec visitor s = invoke this (attribute_values rec) visitor s"

text \<open>The free functions \<^verbatim>\<open>visit<T>(name, attrs, visitor)\<close> and
  \<^verbatim>\<open>visit<T>(name, rec, visitor)\<close> (lines 191-203).\<close>

definition visit ::
  "'t list \<Rightarrow> attribute_name \<Rightarrow> ('t, 'v) attribute_values_view \<Rightarrow> ('t, 'v, 's, 'x) visitor \<Rightarrow> 's
    \<Rightarrow> ('x thrown, visitation_result) outcome \<times> 's" where
  "visit T name attrs visitor s = (let invoker = make_invoker T name in invoke invoker attrs visitor s)"

definition visit_record ::
  "'t list \<Rightarrow> attribute_name \<Rightarrow> ('t, 'v) log_record \<Rightarrow> ('t, 'v, 's, 'x) visitor \<Rightarrow> 's
    \<Rightarrow> ('x thrown, visitation_result) outcome \<times> 's" where
  "visit_record T name rec visitor s = (let invoker = make_invoker T name in invoke_record invoker rec visitor s)"

section \<open>Typed extraction and fallback policies\<close>

text \<open>
  The extraction result has exactly three states: found and typed, not found (the name is
  absent from the set), found with a wrong type (the name is present, its dynamic type is
  not among the candidates).
\<close>

datatype 'a extraction_result = found_and_typed 'a | not_found | found_wrong_type

text \<open>
  Modelled from the spec: the internal visitor of the extraction, which captures the
  matched value (value_extraction.hpp is not among the sources).
\<close>

definition capture :: "('t, 'v, ('t \<times> 'v) option, unit) visitor" where
  "capture T v s = (Returned (), Some (T, v))"

text \<open>
  Modelled from the spec: \<^verbatim>\<open>extract<CandidateTypes>(name, value_set)\<close>. Look the name
  up; if absent the result is not-found; if present call the container's visit with the
  capturing visitor; a match gives found-and-typed, no match gives found-wrong-type.
\<close>

definition extract_value ::
  "'t list \<Rightarrow> attribute_name \<Rightarrow> ('t, 'v) attribute_values_view \<Rightarrow> ('t \<times> 'v) extraction_result" where
  "extract_value Ts name value_set =
     (case value_set name of
        None \<Rightarrow> not_found
      | Some c \<Rightarrow>
          (case attribute_value_visit Ts capture c None of
             (Returned True, Some tv) \<Rightarrow> found_and_typed tv
           | _ \<Rightarrow> found_wrong_type))"

text \<open>
  Modelled from the spec: the three fallback policies (fallback_policy.hpp is not among
  the sources). to-none maps both failures to an empty result; to-default(D) maps both to
  the default D; to-throw raises an error that carries the attribute name and tells absent
  from wrong type. Success returns the extracted value under every policy.
\<close>

datatype 'a fallback_policy = fallback_to_none | fallback_to_throw | fallback_to_default 'a

datatype extraction_error = missing_value attribute_name | invalid_type attribute_name

text \<open>
  Modelled from the spec: a policy applied to an extraction result (section 4.4); the
  name is the one the extraction looked up.
\<close>

fun apply_fallback ::
  "'a fallback_policy \<Rightarrow> attribute_name \<Rightarrow> 'a extraction_result \<Rightarrow> (extraction_error, 'a option) outcome" where
  "apply_fallback policy name (found_and_typed v) = Returned (Some v)"
| "apply_fallback fallback_to_none name not_found = Returned None"
| "apply_fallback fallback_to_none name found_wrong_type = Returned None"
| "apply_fallback (fallback_to_default D) name not_found = Returned (Some D)"
| "apply_fallback (fallback_to_default D) name found_wrong_type = Returned (Some D)"
| "apply_fallback fallback_to_throw name not_found = Raised (missing_value name)"
| "apply_fallback fallback_to_throw name found_wrong_type = Raised (invalid_type name)"

text \<open>
  Modelled from the spec: \<^verbatim>\<open>value_extractor<T, FallbackPolicyT>::operator()(name, attrs)\<close>
  (value_extraction.hpp is not among the sources): the extraction, then the policy.
\<close>

definition value_extractor ::
  "'t list \<Rightarrow> ('t \<times> 'v) fallback_policy \<Rightarrow> attribute_name \<Rightarrow> ('t, 'v) attribute_values_view
    \<Rightarrow> (extraction_error, ('t \<times> 'v) option) outcome" where
  "value_extractor T policy name attrs = apply_fallback policy name (extract_value T name attrs)"

section \<open>Attribute terminals (attr.hpp)\<close>

text \<open>
  \<^verbatim>\<open>attribute_terminal<T, FallbackPolicyT>\<close> wraps an \<^verbatim>\<open>extractor_adapter\<close>
  over \<^verbatim>\<open>value_extractor<T, FallbackPolicyT>\<close>: the adapter stores the name
  \<^verbatim>\<open>m_name\<close>, its base is the extractor with the policy (and the policy's default
  value, if any).
\<close>

record ('t, 'v) attribute_terminal =
  m_name :: attribute_name
  value_type :: "'t list"
  fallback :: "('t \<times> 'v) fallback_policy"

text \<open>
  The evaluation environment of an expression: \<^verbatim>\<open>fusion::at_c<0>(env.args())\<close> is its
  first argument, the attribute value set of the record.
\<close>

record ('a, 'b) environment =
  args :: "'a \<times> 'b"

definition at_c_0 :: "'a \<times> 'b \<Rightarrow> 'a" where
  "at_c_0 xs = fst xs"

text \<open>\<^verbatim>\<open>extractor_adapter::operator()\<close> (lines 94-107): forwards to the base
  extractor with the stored name and the first argument.\<close>

definition extractor_adapter_call ::
  "('t, 'v) attribute_terminal \<Rightarrow> ('t, 'v) attribute_values_view \<times> 'b
    \<Rightarrow> (extraction_error, ('t \<times> 'v) option) outcome" where
  "extractor_adapter_call this xs = value_extractor (value_type this) (fallback this) (m_name this) (at_c_0 xs)"

definition eval_terminal ::
  "('t, 'v) attribute_terminal \<Rightarrow> (('t, 'v) attribute_values_view, 'b) environment
    \<Rightarrow> (extraction_error, ('t \<times> 'v) option) outcome" where
  "eval_terminal this env = extractor_adapter_call this (args env)"


text \<open>
  \<^verbatim>\<open>attribute_terminal::or_none\<close>, \<^verbatim>\<open>or_throw\<close> and \<^verbatim>\<open>or_default\<close>
  (lines 177-203). Each member builds the terminal of its result type (the same value type
  and name, the member's policy), but puts it into \<^verbatim>\<open>base_type act\<close>, the actor
  type of the receiver, and passes that to the constructor of the result type, which takes
  the result's actor type. The call is well-formed only when the two actor types are the
  same, that is when the receiver already has the member's policy; on any other receiver
  the call does not compile, which is the result \<open>None\<close>.
\<close>

definition terminal_or_none :: "('t, 'v) attribute_terminal \<Rightarrow> ('t, 'v) attribute_terminal option" where
  "terminal_or_none this =
     (case fallback this of
        fallback_to_none \<Rightarrow>
          Some \<lparr>m_name = m_name this, value_type = value_type this, fallback = fallback_to_none\<rparr>
      | fallback_to_throw \<Rightarrow> None
      | fallback_to_default d \<Rightarrow> None)"

definition terminal_or_throw :: "('t, 'v) attribute_terminal \<Rightarrow> ('t, 'v) attribute_terminal option" where
  "terminal_or_throw this =
     (case fallback this of
        fallback_to_none \<Rightarrow> None
      | fallback_to_throw \<Rightarrow>
          Some \<lparr>m_name = m_name this, value_type = value_type this, fallback = fallback_to_throw\<rparr>
      | fallback_to_default d \<Rightarrow> None)"


text \<open>\<^verbatim>\<open>attr<AttributeValueT>(name)\<close> (lines 210-217): the default policy of
  \<^verbatim>\<open>attribute_terminal\<close> is \<^verbatim>\<open>fallback_to_none\<close>.\<close>

definition attr :: "'t list \<Rightarrow> attribute_name \<Rightarrow> ('t, 'v) attribute_terminal" where
  "attr AttributeValueT name =
     \<lparr>m_name = name, value_type = AttributeValueT, fallback = fallback_to_none\<rparr>"

section \<open>Attribute keywords (keyword.hpp)\<close>

text \<open>
  A keyword descriptor (the struct the \<^verbatim>\<open>BOOST_LOG_DECLARE_ATTRIBUTE_KEYWORD_TYPE\<close>
  macro declares): the attribute name and the value type.
\<close>

record 't keyword_descriptor =
  get_name :: attribute_name
  descriptor_value_type :: "'t list"

text \<open>
  \<^verbatim>\<open>keyword_terminal::operator()\<close> (lines 72-76): the extractor type is
  \<^verbatim>\<open>value_extractor<value_type, fallback_to_none, ...>\<close>, called with the descriptor's
  name and the first argument of the environment.
\<close>

definition keyword_terminal_call ::
  "'t keyword_descriptor \<Rightarrow> (('t, 'v) attribute_values_view, 'b) environment
    \<Rightarrow> (extraction_error, ('t \<times> 'v) option) outcome" where
  "keyword_terminal_call descriptor env =
     value_extractor (descriptor_value_type descriptor) fallback_to_none (get_name descriptor)
       (at_c_0 (args env))"

text \<open>\<^verbatim>\<open>attribute_keyword::or_none\<close>, \<^verbatim>\<open>or_throw\<close> and
  \<^verbatim>\<open>or_default\<close> (lines 109-147): static members that declare the actor of the
  result type, so they are well-formed for every keyword.\<close>

definition keyword_or_none :: "'t keyword_descriptor \<Rightarrow> ('t, 'v) attribute_terminal" where
  "keyword_or_none descriptor =
     \<lparr>m_name = get_name descriptor, value_type = descriptor_value_type descriptor,
      fallback = fallback_to_none\<rparr>"

definition keyword_or_throw :: "'t keyword_descriptor \<Rightarrow> ('t, 'v) attribute_terminal" where
  "keyword_or_throw descriptor =
     \<lparr>m_name = get_name descriptor, value_type = descriptor_value_type descriptor,
      fallback = fallback_to_throw\<rparr>"


section \<open>Building an attribute value set\<close>

text \<open>
  Modelled from the spec: the merge of the global, thread-local and record-local attribute
  sources into one value set (attribute_values_view.hpp is not among the sources). Keys are
  unique in each source; record-local overrides thread-local overrides global.
\<close>

definition merge_sources ::
  "('t, 'v) attribute_values_view \<Rightarrow> ('t, 'v) attribute_values_view \<Rightarrow> ('t, 'v) attribute_values_view
    \<Rightarrow> ('t, 'v) attribute_values_view" where
  "merge_sources global thread record_local = global ++ thread ++ record_local"

section \<open>The record pump (record_ostream.hpp)\<close>

text \<open>
  Pointers are addresses, 0 the null pointer. The world of a pump: the live stream
  compounds (each holds the stream of one record, here the record it composes), the next
  address the provider hands out, the calls of \<^verbatim>\<open>release_compound\<close> and of
  \<^verbatim>\<open>push_record\<close> so far, in order, and whether an exception is propagating
  (\<^verbatim>\<open>std::uncaught_exception()\<close>).
\<close>

record 'r pump_world =
  compounds :: "nat \<rightharpoonup> 'r"
  next_compound :: nat
  released :: "nat list"
  pushed :: "(nat \<times> 'r) list"
  uncaught_exception :: bool

text \<open>\<^verbatim>\<open>record_pump\<close>: the two mutable pointers (lines 233-237).\<close>

record record_pump =
  m_pLogger :: nat
  m_pStreamCompound :: nat

text \<open>
  \<^verbatim>\<open>stream_provider::allocate_compound\<close> and \<^verbatim>\<open>release_compound\<close> are
  declared in the header (lines 187-190) and defined elsewhere: allocation returns a
  compound that was not live, attached to the record; release takes the compound out of
  the live ones.
\<close>

definition allocate_compound :: "'r \<Rightarrow> 'r pump_world \<Rightarrow> nat \<times> 'r pump_world" where
  "allocate_compound rec w =
     (let p = Suc (next_compound w)
      in (p, w\<lparr>compounds := (compounds w)(p \<mapsto> rec), next_compound := p\<rparr>))"

definition release_compound :: "nat \<Rightarrow> 'r pump_world \<Rightarrow> 'r pump_world" where
  "release_compound compound w =
     w\<lparr>compounds := (compounds w)(compound := None), released := released w @ [compound]\<rparr>"

text \<open>\<^verbatim>\<open>m_pLogger->push_record(rec)\<close>: the logger type is the template parameter;
  the call is recorded with the logger's address.\<close>

definition push_record :: "nat \<Rightarrow> 'r \<Rightarrow> 'r pump_world \<Rightarrow> 'r pump_world" where
  "push_record lg rec w = w\<lparr>pushed := pushed w @ [(lg, rec)]\<rparr>"

text \<open>The constructor \<^verbatim>\<open>record_pump(lg, rec)\<close> (lines 241-245).\<close>

definition record_pump_new :: "nat \<Rightarrow> 'r \<Rightarrow> 'r pump_world \<Rightarrow> record_pump \<times> 'r pump_world" where
  "record_pump_new lg rec w =
     (let (p, w') = allocate_compound rec w
      in (\<lparr>m_pLogger = lg, m_pStreamCompound = p\<rparr>, w'))"

text \<open>
  The copy constructor (lines 247-253), implemented as a move: the new pump takes both
  pointers and the source's pointers are set to 0. The result is the new pump and the
  source as it is afterwards.
\<close>

definition record_pump_copy :: "record_pump \<Rightarrow> record_pump \<times> record_pump" where
  "record_pump_copy that =
     (\<lparr>m_pLogger = m_pLogger that, m_pStreamCompound = m_pStreamCompound that\<rparr>,
      that\<lparr>m_pLogger := 0, m_pStreamCompound := 0\<rparr>)"

text \<open>
  The destructor (lines 255-263). With a non-null logger the guard
  \<^verbatim>\<open>auto_release cleanup(m_pStreamCompound)\<close> releases the compound when the block is
  left; before that, unless an exception is propagating, the record of the compound's
  stream is pushed to the logger. Reading the stream through a pointer that is not a live
  compound is undefined behaviour: the result is \<open>None\<close>.
\<close>

definition record_pump_destructor :: "record_pump \<Rightarrow> 'r pump_world \<Rightarrow> 'r pump_world option" where
  "record_pump_destructor this w =
     (if m_pLogger this \<noteq> 0 then
        (if \<not> uncaught_exception w then
           (case compounds w (m_pStreamCompound this) of
              None \<Rightarrow> None
            | Some rec \<Rightarrow>
                Some (release_compound (m_pStreamCompound this) (push_record (m_pLogger this) rec w)))
         else Some (release_compound (m_pStreamCompound this) w))
      else Some w)"

text \<open>A chain of \<open>n\<close> copies of a pump: the last copy and the sources left behind.\<close>

fun copy_chain :: "nat \<Rightarrow> record_pump \<Rightarrow> record_pump \<times> record_pump list" where
  "copy_chain 0 pump = (pump, [])"
| "copy_chain (Suc n) pump =
     (let (this, that) = record_pump_copy pump;
          (final, sources) = copy_chain n this
      in (final, that # sources))"

text \<open>Destroying the pumps of a list, one after the other.\<close>

fun destroy_all :: "record_pump list \<Rightarrow> 'r pump_world \<Rightarrow> 'r pump_world option" where
  "destroy_all [] w = Some w"
| "destroy_all (pump # pumps) w =
     (case record_pump_destructor pump w of
        None \<Rightarrow> None
      | Some w' \<Rightarrow> destroy_all pumps w')"

section \<open>Counting the calls of a visitor\<close>

text \<open>
  A visitor instrumented with a counter of its invocations: the counter is part of the
  state and is incremented at each call, whether the visitor returns or raises.
\<close>

definition counting :: "('t, 'v, 's, 'x) visitor \<Rightarrow> ('t, 'v, nat \<times> 's, 'x) visitor" where
  "counting visitor T v ns =
     (case visitor T v (snd ns) of (r, s') \<Rightarrow> (r, (Suc (fst ns), s')))"

section \<open>Example inputs\<close>

text \<open>
  The scenario of the specification: a set with the attribute Severity, an int of value 2;
  type tags are the names of the C++ types.
\<close>

definition severity_set :: "(string, int) attribute_values_view" where
  "severity_set = [''Severity'' \<mapsto> typed_value ''int'' 2]"

text \<open>A visitor that writes the value to its stream, one that raises an error derived
  from \<^verbatim>\<open>exception\<close>, and one that raises an object of an unrelated type.\<close>

definition output_fun :: "(string, int, int list, string) visitor" where
  "output_fun T v strm = (Returned (), strm @ [v])"

definition failing_fun :: "(string, int, int list, string) visitor" where
  "failing_fun T v strm = (Raised (derived_from_exception ''format error'' None), strm)"

definition bad_alloc_fun :: "(string, int, int list, string) visitor" where
  "bad_alloc_fun T v strm = (Raised (unrelated_to_exception ''bad_alloc''), strm)"


text \<open>An environment whose first argument is the Severity set, and two keywords.\<close>

definition severity_env :: "((string, int) attribute_values_view, unit) environment" where
  "severity_env = \<lparr>args = (severity_set, ())\<rparr>"

definition severity_keyword :: "string keyword_descriptor" where
  "severity_keyword = \<lparr>get_name = ''Severity'', descriptor_value_type = [''string'']\<rparr>"



definition uptime_keyword :: "string keyword_descriptor" where
  "uptime_keyword = \<lparr>get_name = ''Uptime'', descriptor_value_type = [''int'']\<rparr>"

text \<open>A world with no compound and no exception propagating, and a pump constructed in it
  for the logger at address 7 and a record.\<close>

definition quiet_world :: "string pump_world" where
  "quiet_world =
     \<lparr>compounds = Map.empty, next_compound = 0, released = [], pushed = [], uncaught_exception = False\<rparr>"

definition hello_pump :: "record_pump \<times> string pump_world" where
  "hello_pump = record_pump_new 7 ''hello'' quiet_world"

section \<open>Properties of the container's visit\<close>

lemma visit_no_match:
  "\<not> (\<exists>T \<in> set Ts. holds c T) \<Longrightarrow> attribute_value_visit Ts visitor c s = (Returned False, s)"
  by (induction Ts) auto

lemma visit_match:
  "T \<in> set Ts \<Longrightarrow>
   attribute_value_visit Ts visitor (typed_value T v) s =
     (case visitor T v s of (Returned u, s') \<Rightarrow> (Returned True, s') | (Raised e, s') \<Rightarrow> (Raised e, s'))"
  by (induction Ts) auto

lemma holds_typed: "(\<exists>T \<in> set Ts. holds c T) = (\<exists>T v. c = typed_value T v \<and> T \<in> set Ts)"
  by (cases c) auto

section \<open>The three cases of the invoker\<close>

lemma invoke_absent:
  "attrs (m_Name this) = None \<Longrightarrow>
   invoke this attrs visitor s = (Returned (visitation_result value_not_found), s)"
  by (simp add: invoke_def invoker_try_block_def)

lemma invoke_no_match:
  "attrs (m_Name this) = Some c \<Longrightarrow> \<not> (\<exists>T \<in> set (value_types this). holds c T) \<Longrightarrow>
   invoke this attrs visitor s = (Returned (visitation_result value_has_invalid_type), s)"
  by (simp add: invoke_def invoker_try_block_def visit_no_match)

lemma invoke_match:
  "attrs (m_Name this) = Some (typed_value T v) \<Longrightarrow> T \<in> set (value_types this) \<Longrightarrow>
   invoke this attrs visitor s =
     (case visitor T v s of
        (Returned u, s') \<Rightarrow> (Returned (visitation_result ok), s')
      | (Raised e, s') \<Rightarrow> (Raised (catch_exception (m_Name this) e), s'))"
  by (simp add: invoke_def invoker_try_block_def visit_match split: prod.splits outcome.splits)


lemma visit_counting:
  "attribute_value_visit Ts (counting visitor) c (n, s) =
     (fst (attribute_value_visit Ts visitor c s),
      (if \<exists>T \<in> set Ts. holds c T then Suc n else n, snd (attribute_value_visit Ts visitor c s)))"
proof (induction Ts)
  case Nil
  then show ?case by simp
next
  case (Cons U Us)
  then show ?case
    by (cases c) (auto simp add: counting_def split: prod.splits outcome.splits)
qed

lemma visit_result:
  "fst (attribute_value_visit Ts visitor c s) =
     (case c of
        empty_value \<Rightarrow> Returned False
      | typed_value T v \<Rightarrow>
          if T \<in> set Ts then (case fst (visitor T v s) of Returned u \<Rightarrow> Returned True | Raised e \<Rightarrow> Raised e)
          else Returned False)"
proof (cases c)
  case empty_value
  then show ?thesis by (simp add: visit_no_match)
next
  case (typed_value T v)
  then show ?thesis
    by (cases "T \<in> set Ts") (auto simp add: visit_match visit_no_match split: prod.splits outcome.splits)
qed

lemma invoke_snd:
  "snd (invoke this attrs visitor s) =
     (case attrs (m_Name this) of None \<Rightarrow> s
      | Some c \<Rightarrow> snd (attribute_value_visit (value_types this) visitor c s))"
  by (simp add: invoke_def invoker_try_block_def split: option.splits prod.splits outcome.splits)


lemma invoke_counting:
  "fst (snd (invoke this attrs (counting visitor) (n, s))) =
     (if \<exists>c. attrs (m_Name this) = Some c \<and> (\<exists>T \<in> set (value_types this). holds c T)
      then Suc n else n)"
  by (simp add: invoke_snd visit_counting split: option.splits)

section \<open>The three cases of the extraction\<close>

lemma extract_absent: "value_set name = None \<Longrightarrow> extract_value Ts name value_set = not_found"
  by (simp add: extract_value_def)

lemma extract_no_match:
  "value_set name = Some c \<Longrightarrow> \<not> (\<exists>T \<in> set Ts. holds c T) \<Longrightarrow>
   extract_value Ts name value_set = found_wrong_type"
  by (simp add: extract_value_def visit_no_match)


section \<open>Null pumps and chains of copies\<close>

lemma destructor_null: "m_pLogger pump = 0 \<Longrightarrow> record_pump_destructor pump w = Some w"
  by (simp add: record_pump_destructor_def)

lemma destroy_all_null: "\<forall>q \<in> set pumps. m_pLogger q = 0 \<Longrightarrow> destroy_all pumps w = Some w"
  by (induction pumps) (simp_all add: destructor_null)

lemma destroy_all_append:
  "destroy_all (xs @ ys) w = (case destroy_all xs w of None \<Rightarrow> None | Some w' \<Rightarrow> destroy_all ys w')"
  by (induction xs arbitrary: w) (simp_all split: option.splits)

lemma copy_moves:
  "record_pump_copy pump = (pump, \<lparr>m_pLogger = 0, m_pStreamCompound = 0\<rparr>)"
  by (cases pump) (simp add: record_pump_copy_def)

lemma copy_chain_final: "fst (copy_chain n pump) = pump"
  by (induction n arbitrary: pump) (simp_all add: copy_moves case_prod_beta)

lemma copy_chain_sources:
  "length (snd (copy_chain n pump)) = n \<and> (\<forall>q \<in> set (snd (copy_chain n pump)). m_pLogger q = 0)"
  by (induction n arbitrary: pump) (simp_all add: copy_moves case_prod_beta)

lemma destroy_chain:
  "destroy_all (take k (snd (copy_chain n pump)) @ fst (copy_chain n pump) # drop k (snd (copy_chain n pump))) w
     = record_pump_destructor pump w"
proof -
  have a: "\<forall>q \<in> set (take k (snd (copy_chain n pump))). m_pLogger q = 0"
    using copy_chain_sources [of n pump] by (meson in_set_takeD)
  have b: "\<forall>q \<in> set (drop k (snd (copy_chain n pump))). m_pLogger q = 0"
    using copy_chain_sources [of n pump] by (meson in_set_dropD)
  show ?thesis
    by (simp add: destroy_all_append destroy_all_null [OF a] destroy_all_null [OF b] copy_chain_final
        split: option.splits)
qed

section \<open>The claims about the invoker\<close>

text \<open>
  C1. The set form of the invoker returns \<^verbatim>\<open>value_not_found\<close> exactly when the bound
  name is absent from the set, \<^verbatim>\<open>value_has_invalid_type\<close> exactly when the name is
  found and no candidate type matches, and \<^verbatim>\<open>ok\<close> exactly when the name is found,
  a candidate type matches and the visitor, applied to the value, returns. It raises only
  when the visitor it applied raised: never for absence or type mismatch. With the two
  failure codes the state is untouched; on a match the state is the one the visitor left.
\<close>

theorem invoke_result_codes:
  "(fst (invoke this attrs visitor s) = Returned (visitation_result value_not_found)
      \<longleftrightarrow> attrs (m_Name this) = None) \<and>
   (fst (invoke this attrs visitor s) = Returned (visitation_result value_has_invalid_type)
      \<longleftrightarrow> (\<exists>c. attrs (m_Name this) = Some c \<and> \<not> (\<exists>T \<in> set (value_types this). holds c T))) \<and>
   (fst (invoke this attrs visitor s) = Returned (visitation_result ok)
      \<longleftrightarrow> (\<exists>T v. attrs (m_Name this) = Some (typed_value T v) \<and> T \<in> set (value_types this)
                 \<and> fst (visitor T v s) = Returned ())) \<and>
   ((\<exists>e. fst (invoke this attrs visitor s) = Raised e)
      \<longleftrightarrow> (\<exists>T v e. attrs (m_Name this) = Some (typed_value T v) \<and> T \<in> set (value_types this)
                 \<and> fst (visitor T v s) = Raised e)) \<and>
   (fst (invoke this attrs visitor s) \<in>
      {Returned (visitation_result value_not_found), Returned (visitation_result value_has_invalid_type)}
      \<longrightarrow> snd (invoke this attrs visitor s) = s) \<and>
   (\<forall>T v. attrs (m_Name this) = Some (typed_value T v) \<and> T \<in> set (value_types this)
      \<longrightarrow> snd (invoke this attrs visitor s) = snd (visitor T v s))"
proof (cases "attrs (m_Name this)")
  case None
  then show ?thesis by (simp add: invoke_absent)
next
  case (Some c)
  show ?thesis
  proof (cases "\<exists>T \<in> set (value_types this). holds c T")
    case False
    have "\<not> (\<exists>T v. c = typed_value T v \<and> T \<in> set (value_types this))"
      using False holds_typed [of "value_types this" c] by simp
    then show ?thesis using Some False by (auto simp add: invoke_no_match)
  next
    case True
    then obtain T v where c: "c = typed_value T v" and T: "T \<in> set (value_types this)"
      using holds_typed [of "value_types this" c] by auto
    have m: "attrs (m_Name this) = Some (typed_value T v)" using Some c by simp
    show ?thesis
      using True c T m invoke_match [where attrs=attrs and this=this and T=T and v=v and visitor=visitor and s=s]
      by (auto split: prod.splits outcome.splits)
  qed
qed

theorem invoke_result_codes_witness:
  "fst (invoke (make_invoker [''int''] ''Severity'') severity_set output_fun []) = Returned (visitation_result ok) \<and>
   fst (invoke (make_invoker [''string''] ''Severity'') severity_set output_fun [])
     = Returned (visitation_result value_has_invalid_type) \<and>
   fst (invoke (make_invoker [''int''] ''Uptime'') severity_set output_fun []) = Returned (visitation_result value_not_found)"
proof -
  have a: "fst (invoke (make_invoker [''int''] ''Severity'') severity_set output_fun []) = Returned (visitation_result ok)"
  proof -
    have h: "severity_set (m_Name (make_invoker [''int''] ''Severity'')) = Some (typed_value ''int'' 2) \<and>
        ''int'' \<in> set (value_types (make_invoker [''int''] ''Severity'')) \<and> fst (output_fun ''int'' 2 []) = Returned ()"
      by (simp add: make_invoker_def severity_set_def output_fun_def)
    show ?thesis
      using h invoke_result_codes [where attrs=severity_set and this="make_invoker [''int''] ''Severity''"
          and visitor=output_fun and s="[]"]
      by blast
  qed
  have b: "fst (invoke (make_invoker [''string''] ''Severity'') severity_set output_fun [])
       = Returned (visitation_result value_has_invalid_type)"
  proof -
    have h: "\<exists>c. severity_set (m_Name (make_invoker [''string''] ''Severity'')) = Some c \<and>
        \<not> (\<exists>T \<in> set (value_types (make_invoker [''string''] ''Severity'')). holds c T)"
      by (simp add: make_invoker_def severity_set_def)
    show ?thesis
      using h invoke_result_codes [where attrs=severity_set and this="make_invoker [''string''] ''Severity''"
          and visitor=output_fun and s="[]"]
      by blast
  qed
  have c: "fst (invoke (make_invoker [''int''] ''Uptime'') severity_set output_fun []) = Returned (visitation_result value_not_found)"
  proof -
    have h: "severity_set (m_Name (make_invoker [''int''] ''Uptime'')) = None"
      by (simp add: make_invoker_def severity_set_def)
    show ?thesis
      using h invoke_result_codes [where attrs=severity_set and this="make_invoker [''int''] ''Uptime''"
          and visitor=output_fun and s="[]"]
      by blast
  qed
  show ?thesis using a b c by simp
qed

text \<open>
  C2. If the bound name is absent from the set, the invoker returns
  \<^verbatim>\<open>value_not_found\<close>, never \<^verbatim>\<open>value_has_invalid_type\<close>, whatever the
  candidate types, the visitor and the state.
\<close>

theorem absent_name_is_not_found:
  "attrs (m_Name this) = None \<Longrightarrow>
   invoke this attrs visitor s = (Returned (visitation_result value_not_found), s) \<and>
   fst (invoke this attrs visitor s) \<noteq> Returned (visitation_result value_has_invalid_type)"
  by (simp add: invoke_absent)

theorem absent_name_is_not_found_witness:
  "severity_set ''Uptime'' = None \<and>
   invoke (make_invoker [''int'', ''string''] ''Uptime'') severity_set output_fun [] =
     (Returned (visitation_result value_not_found), [])"
proof -
  have h: "severity_set (m_Name (make_invoker [''int'', ''string''] ''Uptime'')) = None"
    by (simp add: severity_set_def make_invoker_def)
  show ?thesis
    using h absent_name_is_not_found [where attrs=severity_set
        and this="make_invoker [''int'', ''string''] ''Uptime''" and visitor=output_fun and s="[]"]
    by (simp add: make_invoker_def)
qed

text \<open>
  C3, as amended. When the visitor raises on a found value of a candidate type, the error
  reaches the caller (it is not suppressed). If the raised object is derived from the
  library's \<^verbatim>\<open>exception\<close> base class, the invoker has attached the bound attribute
  name to it, and an inspection finds that name; an object of any other type reaches the
  caller unchanged.
\<close>

theorem visitor_error_is_named_and_rethrown:
  "attrs (m_Name this) = Some (typed_value T v) \<Longrightarrow> T \<in> set (value_types this) \<Longrightarrow>
   visitor T v s = (Raised e, s') \<Longrightarrow>
   (\<forall>x info. e = derived_from_exception x info \<longrightarrow>
      invoke this attrs visitor s = (Raised (derived_from_exception x (Some (m_Name this))), s') \<and>
      attribute_name_info (derived_from_exception x (Some (m_Name this))) = Some (m_Name this)) \<and>
   (\<forall>x. e = unrelated_to_exception x \<longrightarrow>
      invoke this attrs visitor s = (Raised (unrelated_to_exception x), s'))"
  by (simp add: invoke_match attach_attribute_name_info_def)

theorem visitor_error_is_named_and_rethrown_witness:
  "severity_set ''Severity'' = Some (typed_value ''int'' 2) \<and> ''int'' \<in> set [''int''] \<and>
   failing_fun ''int'' 2 [] = (Raised (derived_from_exception ''format error'' None), []) \<and>
   invoke (make_invoker [''int''] ''Severity'') severity_set failing_fun [] =
     (Raised (derived_from_exception ''format error'' (Some ''Severity'')), [])"
proof -
  have h1: "severity_set (m_Name (make_invoker [''int''] ''Severity'')) = Some (typed_value ''int'' 2)"
    by (simp add: severity_set_def make_invoker_def)
  have h2: "''int'' \<in> set (value_types (make_invoker [''int''] ''Severity''))"
    by (simp add: make_invoker_def)
  have h3: "failing_fun ''int'' 2 [] = (Raised (derived_from_exception ''format error'' None), [])"
    by (simp add: failing_fun_def)
  show ?thesis
    using h1 h2 h3 visitor_error_is_named_and_rethrown [where attrs=severity_set
        and this="make_invoker [''int''] ''Severity''" and visitor=failing_fun and s="[]"
        and T="''int''" and v=2 and e="derived_from_exception ''format error'' None" and s'="[]"]
    by (simp add: make_invoker_def)
qed

text \<open>
  C3, as stated, fails: a visitor that raises an object not derived from
  \<^verbatim>\<open>exception\<close> on the Severity value gets that object through the handler as it
  is, and it does not name the attribute.
\<close>

theorem unrelated_error_carries_no_name:
  "severity_set ''Severity'' = Some (typed_value ''int'' 2) \<and>
   bad_alloc_fun ''int'' 2 [] = (Raised (unrelated_to_exception ''bad_alloc''), []) \<and>
   invoke (make_invoker [''int''] ''Severity'') severity_set bad_alloc_fun [] =
     (Raised (unrelated_to_exception ''bad_alloc''), []) \<and>
   attribute_name_info (unrelated_to_exception ''bad_alloc'' :: string thrown) \<noteq> Some ''Severity''"
  by (simp add: severity_set_def bad_alloc_fun_def make_invoker_def invoke_def invoker_try_block_def)

text \<open>
  C8. The record form of the invoker returns what the set form returns on the record's
  attribute value set, and the free functions \<^verbatim>\<open>visit<T>\<close> return what an invoker
  constructed from the type list and the name returns.
\<close>

theorem invoker_forms_agree:
  "invoke_record this rec visitor s = invoke this (attribute_values rec) visitor s \<and>
   visit T name attrs visitor s = invoke (make_invoker T name) attrs visitor s \<and>
   visit_record T name rec visitor s = invoke (make_invoker T name) (attribute_values rec) visitor s"
  by (simp add: invoke_record_def visit_def visit_record_def)



section \<open>The claims about the container's visit, extraction and fallback\<close>

text \<open>
  C7. A visit over the candidate types applies the visitor exactly once when some
  candidate type matches and not at all when none does, whether the visitor returns or
  raises; it returns false exactly when no type matches, and true exactly when a type
  matches and the visitor returns. Counting the calls does not change what the visit
  does. One call of the invoker applies the visitor once when the name is found with a
  candidate type, and not at all otherwise.
\<close>

theorem visit_applies_visitor_at_most_once:
  "fst (snd (attribute_value_visit Ts (counting visitor) c (n, s))) =
     (if \<exists>T \<in> set Ts. holds c T then Suc n else n) \<and>
   (fst (attribute_value_visit Ts (counting visitor) c (n, s)) = Returned False
      \<longleftrightarrow> \<not> (\<exists>T \<in> set Ts. holds c T)) \<and>
   (fst (attribute_value_visit Ts (counting visitor) c (n, s)) = Returned True
      \<longleftrightarrow> (\<exists>T v. c = typed_value T v \<and> T \<in> set Ts \<and> fst (visitor T v s) = Returned ())) \<and>
   fst (attribute_value_visit Ts (counting visitor) c (n, s)) = fst (attribute_value_visit Ts visitor c s) \<and>
   snd (snd (attribute_value_visit Ts (counting visitor) c (n, s))) = snd (attribute_value_visit Ts visitor c s) \<and>
   fst (snd (invoke this attrs (counting visitor) (n, s))) =
     (if \<exists>c. attrs (m_Name this) = Some c \<and> (\<exists>T \<in> set (value_types this). holds c T)
      then Suc n else n)"
proof -
  have v: "fst (snd (attribute_value_visit Ts (counting visitor) c (n, s))) =
     (if \<exists>T \<in> set Ts. holds c T then Suc n else n) \<and>
   (fst (attribute_value_visit Ts (counting visitor) c (n, s)) = Returned False
      \<longleftrightarrow> \<not> (\<exists>T \<in> set Ts. holds c T)) \<and>
   (fst (attribute_value_visit Ts (counting visitor) c (n, s)) = Returned True
      \<longleftrightarrow> (\<exists>T v. c = typed_value T v \<and> T \<in> set Ts \<and> fst (visitor T v s) = Returned ())) \<and>
   fst (attribute_value_visit Ts (counting visitor) c (n, s)) = fst (attribute_value_visit Ts visitor c s) \<and>
   snd (snd (attribute_value_visit Ts (counting visitor) c (n, s))) = snd (attribute_value_visit Ts visitor c s)"
    by (cases c) (auto simp add: visit_counting visit_result split: outcome.splits)
  show ?thesis
    using v invoke_counting [of this attrs visitor n s] by blast
qed

theorem visit_applies_visitor_at_most_once_witness:
  "fst (snd (attribute_value_visit [''string'', ''int'', ''int''] (counting output_fun) (typed_value ''int'' 2) (0, []))) = 1 \<and>
   fst (snd (attribute_value_visit [''string'', ''bool''] (counting output_fun) (typed_value ''int'' 2) (0, []))) = 0 \<and>
   fst (snd (attribute_value_visit [''int''] (counting failing_fun) (typed_value ''int'' 2) (0, []))) = 1"
proof -
  have a: "fst (snd (attribute_value_visit [''string'', ''int'', ''int''] (counting output_fun) (typed_value ''int'' 2) (0, []))) = 1"
    using visit_applies_visitor_at_most_once [of "[''string'', ''int'', ''int'']" output_fun "typed_value ''int'' 2" 0 "[]"]
    by simp
  have b: "fst (snd (attribute_value_visit [''string'', ''bool''] (counting output_fun) (typed_value ''int'' 2) (0, []))) = 0"
    using visit_applies_visitor_at_most_once [of "[''string'', ''bool'']" output_fun "typed_value ''int'' 2" 0 "[]"]
    by simp
  have c: "fst (snd (attribute_value_visit [''int''] (counting failing_fun) (typed_value ''int'' 2) (0, []))) = 1"
    using visit_applies_visitor_at_most_once [of "[''int'']" failing_fun "typed_value ''int'' 2" 0 "[]"]
    by simp
  show ?thesis using a b c by simp
qed



text \<open>
  C9. A bare keyword terminal extracts with the to-none policy: it evaluates to what the
  terminal made by \<^verbatim>\<open>or_none()\<close> evaluates to, it never raises, and when the attribute
  is absent or of a non-candidate type the result is empty.
\<close>

theorem bare_keyword_falls_back_to_none:
  "keyword_terminal_call descriptor env = eval_terminal (keyword_or_none descriptor) env \<and>
   (\<forall>e. keyword_terminal_call descriptor env \<noteq> Raised e) \<and>
   (at_c_0 (args env) (get_name descriptor) = None \<longrightarrow>
      keyword_terminal_call descriptor env = Returned None) \<and>
   (\<forall>c. at_c_0 (args env) (get_name descriptor) = Some c \<and>
        \<not> (\<exists>T \<in> set (descriptor_value_type descriptor). holds c T) \<longrightarrow>
      keyword_terminal_call descriptor env = Returned None)"
proof -
  have "\<forall>e. apply_fallback fallback_to_none (get_name descriptor)
      (extract_value (descriptor_value_type descriptor) (get_name descriptor) (at_c_0 (args env))
        :: ('a \<times> 'b) extraction_result) \<noteq> Raised e"
    by (cases "extract_value (descriptor_value_type descriptor) (get_name descriptor) (at_c_0 (args env))
        :: ('a \<times> 'b) extraction_result") simp_all
  then show ?thesis
    by (simp add: keyword_terminal_call_def eval_terminal_def extractor_adapter_call_def
        keyword_or_none_def value_extractor_def extract_absent extract_no_match)
qed

theorem bare_keyword_falls_back_to_none_witness:
  "keyword_terminal_call uptime_keyword severity_env = Returned None \<and>
   keyword_terminal_call severity_keyword severity_env = Returned None"
proof -
  have h1: "at_c_0 (args severity_env) (get_name uptime_keyword) = None"
    by (simp add: severity_env_def severity_set_def uptime_keyword_def at_c_0_def)
  have a: "keyword_terminal_call uptime_keyword severity_env = Returned None"
    using h1 bare_keyword_falls_back_to_none [where env=severity_env and descriptor=uptime_keyword]
    by blast
  have h2: "at_c_0 (args severity_env) (get_name severity_keyword) = Some (typed_value ''int'' 2) \<and>
      \<not> (\<exists>T \<in> set (descriptor_value_type severity_keyword). holds (typed_value ''int'' (2::int)) T)"
    by (simp add: severity_env_def severity_set_def severity_keyword_def at_c_0_def)
  have b: "keyword_terminal_call severity_keyword severity_env = Returned None"
    using h2 bare_keyword_falls_back_to_none [where env=severity_env and descriptor=severity_keyword]
    by blast
  show ?thesis using a b by simp
qed

text \<open>
  C6. In the merged value set a name resolves to the record-local value if the
  record-local source has the name, else to the thread-local value if the thread-local
  source has it, else to what the global source has. Merging global A:1, thread A:2 and
  B:3, record B:4 gives A resolved to 2 and B resolved to 4.
\<close>

theorem merge_precedence:
  "merge_sources global thread record_local name =
     (case record_local name of
        Some c \<Rightarrow> Some c
      | None \<Rightarrow> (case thread name of Some c \<Rightarrow> Some c | None \<Rightarrow> global name)) \<and>
   merge_sources [''A'' \<mapsto> typed_value ''int'' (1::int)]
       [''A'' \<mapsto> typed_value ''int'' 2, ''B'' \<mapsto> typed_value ''int'' 3]
       [''B'' \<mapsto> typed_value ''int'' 4] ''A'' = Some (typed_value ''int'' 2) \<and>
   merge_sources [''A'' \<mapsto> typed_value ''int'' (1::int)]
       [''A'' \<mapsto> typed_value ''int'' 2, ''B'' \<mapsto> typed_value ''int'' 3]
       [''B'' \<mapsto> typed_value ''int'' 4] ''B'' = Some (typed_value ''int'' 4)"
  by (simp add: merge_sources_def map_add_def split: option.splits)

section \<open>The claim about the record pump\<close>

text \<open>
  C10. The destructor of a pump with a logger and a live compound releases the compound
  and, unless an exception is propagating, pushes the record of the compound's stream to
  the logger, once; with an exception propagating nothing is pushed and the compound is
  still released. Copying a pump gives the copy both pointers and leaves the source with
  null pointers, so the destructor of the source does nothing; destroying all the pumps
  of a chain of copies, in any order, does what one destructor of the first pump does:
  the record is pushed at most once.
\<close>

theorem record_pump_pushes_once:
  assumes "m_pLogger pump \<noteq> 0" and "compounds w (m_pStreamCompound pump) = Some rec"
  shows "(\<exists>w'. record_pump_destructor pump w = Some w' \<and>
           pushed w' = (if uncaught_exception w then pushed w else pushed w @ [(m_pLogger pump, rec)]) \<and>
           released w' = released w @ [m_pStreamCompound pump] \<and>
           compounds w' (m_pStreamCompound pump) = None) \<and>
         fst (record_pump_copy pump) = pump \<and>
         snd (record_pump_copy pump) = \<lparr>m_pLogger = 0, m_pStreamCompound = 0\<rparr> \<and>
         record_pump_destructor (snd (record_pump_copy pump)) w = Some w \<and>
         length (snd (copy_chain n pump)) = n \<and>
         destroy_all (take k (snd (copy_chain n pump)) @ fst (copy_chain n pump) # drop k (snd (copy_chain n pump))) w
           = record_pump_destructor pump w"
proof -
  have d: "\<exists>w'. record_pump_destructor pump w = Some w' \<and>
           pushed w' = (if uncaught_exception w then pushed w else pushed w @ [(m_pLogger pump, rec)]) \<and>
           released w' = released w @ [m_pStreamCompound pump] \<and>
           compounds w' (m_pStreamCompound pump) = None"
    using assms by (simp add: record_pump_destructor_def release_compound_def push_record_def)
  have c: "fst (record_pump_copy pump) = pump \<and>
         snd (record_pump_copy pump) = \<lparr>m_pLogger = 0, m_pStreamCompound = 0\<rparr> \<and>
         record_pump_destructor (snd (record_pump_copy pump)) w = Some w"
    by (simp add: copy_moves destructor_null)
  show ?thesis
    using d c copy_chain_sources [of n pump] destroy_chain [of k n pump w] by blast
qed

theorem record_pump_pushes_once_witness:
  "hello_pump = (\<lparr>m_pLogger = 7, m_pStreamCompound = 1\<rparr>,
      \<lparr>compounds = [1 \<mapsto> ''hello''], next_compound = 1, released = [], pushed = [],
       uncaught_exception = False\<rparr>) \<and>
   (\<exists>w'. destroy_all (take 1 (snd (copy_chain 2 (fst hello_pump))) @ fst (copy_chain 2 (fst hello_pump))
            # drop 1 (snd (copy_chain 2 (fst hello_pump)))) (snd hello_pump) = Some w' \<and>
      pushed w' = [(7, ''hello'')] \<and> released w' = [1])"
proof -
  have h: "hello_pump = (\<lparr>m_pLogger = 7, m_pStreamCompound = 1\<rparr>,
      \<lparr>compounds = [1 \<mapsto> ''hello''], next_compound = 1, released = [], pushed = [],
       uncaught_exception = False\<rparr>)"
    by (simp add: hello_pump_def record_pump_new_def allocate_compound_def quiet_world_def)
  have h1: "m_pLogger (fst hello_pump) \<noteq> 0" by (simp add: h)
  have h2: "compounds (snd hello_pump) (m_pStreamCompound (fst hello_pump)) = Some ''hello''"
    by (simp add: h)
  have h3: "\<not> uncaught_exception (snd hello_pump) \<and> pushed (snd hello_pump) = [] \<and>
      released (snd hello_pump) = [] \<and> m_pLogger (fst hello_pump) = 7 \<and> m_pStreamCompound (fst hello_pump) = 1"
    by (simp add: h)
  show ?thesis
    using h h3 record_pump_pushes_once [OF h1 h2, of 2 1] by auto
qed

end
